theory Spec2Isabelle
  imports Main
begin

section \<open>The frame-to-delegate registry of xwalk_contents_io_thread_client.cc\<close>

text \<open>
  The development follows \<^verbatim>\<open>src/runtime/browser/android/xwalk_contents_io_thread_client.cc\<close>.
  The registry \<^verbatim>\<open>RfhToIoThreadClientMap\<close> is a process-wide singleton whose two maps are
  guarded by one lock; every member function holds the lock for its whole body, so each
  one is a function from the registry before the call to the registry after it.
  The C++ \<^verbatim>\<open>int\<close> identifiers are only ever compared and used as keys, never computed
  with, so they are integers here.
\<close>

subsection \<open>Java references\<close>

text \<open>
  A Java object is named by a natural number. A \<^verbatim>\<open>jobject\<close> or a
  \<^verbatim>\<open>ScopedJavaLocalRef<jobject>\<close> is a strong reference that may be null
  (\<open>None\<close>).
\<close>

type_synonym jobject = "nat option"

text \<open>
  Modelled from the spec: \<^verbatim>\<open>JavaObjectWeakGlobalRef\<close> is declared in
  \<^verbatim>\<open>base/android/jni_weak_ref.h\<close>, which is not among the sources. The spec describes it
  as a weak handle with an explicit resolve step that returns an optional strong
  reference and yields "absent" once the referent has been garbage-collected. A weak
  reference is empty (\<open>None\<close>, what the default constructor and a null \<^verbatim>\<open>jobject\<close>
  give) or names an object; \<open>JavaObjectWeakGlobalRef_get\<close> resolves it against the
  objects that are still alive.
\<close>

type_synonym JavaObjectWeakGlobalRef = "nat option"

definition JavaObjectWeakGlobalRef_new :: "jobject \<Rightarrow> JavaObjectWeakGlobalRef" where
  "JavaObjectWeakGlobalRef_new obj = obj"

definition JavaObjectWeakGlobalRef_get :: "(nat \<Rightarrow> bool) \<Rightarrow> JavaObjectWeakGlobalRef \<Rightarrow> jobject" where
  "JavaObjectWeakGlobalRef_get alive w =
     (case w of None \<Rightarrow> None | Some obj \<Rightarrow> if alive obj then Some obj else None)"

subsection \<open>Records of the registry\<close>

record IoThreadClientData =
  pending_association :: bool
  io_thread_client :: JavaObjectWeakGlobalRef

text \<open>The constructor \<^verbatim>\<open>IoThreadClientData::IoThreadClientData()\<close>.\<close>

definition IoThreadClientData_new :: IoThreadClientData where
  "IoThreadClientData_new = \<lparr>pending_association = False, io_thread_client = None\<rparr>"

text \<open>
  A \<^verbatim>\<open>RenderFrameHost*\<close>: the address of the object (the occupant sets hold and compare
  these pointers) and the three identifiers the code reads through it.
\<close>

record RenderFrameHost =
  rfh_addr :: nat
  GetProcessID :: int
  GetRoutingID :: int
  GetFrameTreeNodeId :: int

definition GetRenderFrameHostIdPair :: "RenderFrameHost \<Rightarrow> int \<times> int" where
  "GetRenderFrameHostIdPair rfh = (GetProcessID rfh, GetRoutingID rfh)"

type_synonym HostsAndClientDataPair = "nat set \<times> IoThreadClientData"

record RfhToIoThreadClientMap =
  rfh_to_io_thread_client :: "int \<times> int \<rightharpoonup> IoThreadClientData"
  frame_tree_node_to_io_thread_client :: "int \<rightharpoonup> HostsAndClientDataPair"

text \<open>The lazily constructed singleton starts with both maps empty.\<close>

definition GetInstance_initial :: RfhToIoThreadClientMap where
  "GetInstance_initial =
     \<lparr>rfh_to_io_thread_client = Map.empty, frame_tree_node_to_io_thread_client = Map.empty\<rparr>"

subsection \<open>Outcomes\<close>

text \<open>
  \<^verbatim>\<open>DCHECK\<close> and \<^verbatim>\<open>NOTREACHED\<close> are fatal in a debug build and compiled out in a release
  build. \<open>DcheckFailed x\<close> says that such a check failed during the call, and \<open>x\<close> is
  what the release build goes on with. \<open>NullDeref\<close> is a call through a null pointer,
  after which no build goes on.
\<close>

datatype 'a outcome = Passed 'a | DcheckFailed 'a | NullDeref

fun continues :: "'a outcome \<Rightarrow> 'a option" where
  "continues (Passed x) = Some x"
| "continues (DcheckFailed x) = Some x"
| "continues NullDeref = None"

subsection \<open>RfhToIoThreadClientMap\<close>

text \<open>\<^verbatim>\<open>void Set(pair<int, int> rfh_id, const IoThreadClientData& client)\<close>\<close>

definition Set_rfh_id ::
  "RfhToIoThreadClientMap \<Rightarrow> int \<times> int \<Rightarrow> IoThreadClientData \<Rightarrow> RfhToIoThreadClientMap" where
  "Set_rfh_id m rfh_id client =
     m\<lparr>rfh_to_io_thread_client := (rfh_to_io_thread_client m)(rfh_id \<mapsto> client)\<rparr>"

text \<open>
  \<^verbatim>\<open>bool Get(pair<int, int> rfh_id, IoThreadClientData* client)\<close>: the result and the
  contents of \<^verbatim>\<open>*client\<close> after the call, which are the caller's when nothing is found.
\<close>

definition Get_rfh_id ::
  "RfhToIoThreadClientMap \<Rightarrow> int \<times> int \<Rightarrow> IoThreadClientData \<Rightarrow> bool \<times> IoThreadClientData" where
  "Get_rfh_id m rfh_id client =
     (case rfh_to_io_thread_client m rfh_id of
        None \<Rightarrow> (False, client)
      | Some found \<Rightarrow> (True, found))"

text \<open>\<^verbatim>\<open>bool Get(int frame_tree_node_id, IoThreadClientData* client)\<close>\<close>

definition Get_frame_tree_node_id ::
  "RfhToIoThreadClientMap \<Rightarrow> int \<Rightarrow> IoThreadClientData \<Rightarrow> bool \<times> IoThreadClientData" where
  "Get_frame_tree_node_id m frame_tree_node_id client =
     (case frame_tree_node_to_io_thread_client m frame_tree_node_id of
        None \<Rightarrow> (False, client)
      | Some found \<Rightarrow> (True, snd found))"

text \<open>
  \<^verbatim>\<open>operator[]\<close> of the frame-tree-node map: the entry of the key, value-initialised
  (no hosts, a default \<^verbatim>\<open>IoThreadClientData\<close>) when the key is new.
\<close>

definition current_entry_of ::
  "RfhToIoThreadClientMap \<Rightarrow> int \<Rightarrow> HostsAndClientDataPair" where
  "current_entry_of m frame_tree_node_id =
     (case frame_tree_node_to_io_thread_client m frame_tree_node_id of
        None \<Rightarrow> ({}, IoThreadClientData_new)
      | Some e \<Rightarrow> e)"

text \<open>\<^verbatim>\<open>void Set(RenderFrameHost* rfh, const IoThreadClientData& client)\<close>\<close>

definition Set_rfh ::
  "RfhToIoThreadClientMap \<Rightarrow> RenderFrameHost \<Rightarrow> IoThreadClientData \<Rightarrow> RfhToIoThreadClientMap" where
  "Set_rfh m rfh client =
     (let frame_tree_node_id = GetFrameTreeNodeId rfh;
          rfh_id = GetRenderFrameHostIdPair rfh;
          current_entry = current_entry_of m frame_tree_node_id
      in \<lparr>rfh_to_io_thread_client = (rfh_to_io_thread_client m)(rfh_id \<mapsto> client),
          frame_tree_node_to_io_thread_client =
            (frame_tree_node_to_io_thread_client m)
              (frame_tree_node_id \<mapsto> (insert (rfh_addr rfh) (fst current_entry), client))\<rparr>)"

text \<open>
  \<^verbatim>\<open>void Erase(RenderFrameHost* rfh)\<close>. The \<^verbatim>\<open>DCHECK(num_erased == 1)\<close> fails when the
  frame was not in the occupant set of its slot; the release build still removes the
  emptied slot and the frame's own entry.
\<close>

definition Erase :: "RfhToIoThreadClientMap \<Rightarrow> RenderFrameHost \<Rightarrow> RfhToIoThreadClientMap outcome" where
  "Erase m rfh =
     (let frame_tree_node_id = GetFrameTreeNodeId rfh;
          rfh_id = GetRenderFrameHostIdPair rfh;
          current_entry = current_entry_of m frame_tree_node_id;
          num_erased = (if rfh_addr rfh \<in> fst current_entry then 1 else 0 :: nat);
          hosts = fst current_entry - {rfh_addr rfh};
          m' = \<lparr>rfh_to_io_thread_client = (rfh_to_io_thread_client m)(rfh_id := None),
                frame_tree_node_to_io_thread_client =
                  (if hosts = {}
                   then (frame_tree_node_to_io_thread_client m)(frame_tree_node_id := None)
                   else (frame_tree_node_to_io_thread_client m)
                          (frame_tree_node_id \<mapsto> (hosts, snd current_entry)))\<rparr>
      in if num_erased = 1 then Passed m' else DcheckFailed m')"

subsection \<open>ClientMapEntryUpdater\<close>

text \<open>
  A \<^verbatim>\<open>WebContents*\<close>, of which the code reads the main frame only; \<open>None\<close> is a null
  \<^verbatim>\<open>GetMainFrame()\<close>.
\<close>

record WebContents =
  GetMainFrame :: "RenderFrameHost option"

text \<open>
  Member names end in \<open>_mem\<close> where the source ends them in an underscore
  (\<^verbatim>\<open>jdelegate_\<close>, \<^verbatim>\<open>pending_association_\<close>, \<^verbatim>\<open>java_object_\<close>).
\<close>

record ClientMapEntryUpdater =
  jdelegate_mem :: JavaObjectWeakGlobalRef

text \<open>
  \<^verbatim>\<open>void ClientMapEntryUpdater::RenderFrameCreated(RenderFrameHost* rfh)\<close> (the log line
  is left out).
\<close>

definition RenderFrameCreated ::
  "ClientMapEntryUpdater \<Rightarrow> RfhToIoThreadClientMap \<Rightarrow> RenderFrameHost \<Rightarrow> RfhToIoThreadClientMap" where
  "RenderFrameCreated this m rfh =
     (let client_data = IoThreadClientData_new;
          client_data = client_data\<lparr>io_thread_client := jdelegate_mem this\<rparr>;
          client_data = client_data\<lparr>pending_association := False\<rparr>
      in Set_rfh m rfh client_data)"

text \<open>\<^verbatim>\<open>void ClientMapEntryUpdater::RenderFrameDeleted(RenderFrameHost* rfh)\<close>\<close>

definition RenderFrameDeleted ::
  "ClientMapEntryUpdater \<Rightarrow> RfhToIoThreadClientMap \<Rightarrow> RenderFrameHost \<Rightarrow> RfhToIoThreadClientMap outcome" where
  "RenderFrameDeleted this m rfh = Erase m rfh"

text \<open>
  The constructor of \<^verbatim>\<open>ClientMapEntryUpdater\<close>: the new observer and the registry after
  it. \<^verbatim>\<open>DCHECK(jdelegate)\<close> fails on a null delegate; the container itself is never
  null here.
\<close>

definition ClientMapEntryUpdater_new ::
  "RfhToIoThreadClientMap \<Rightarrow> WebContents \<Rightarrow> jobject
     \<Rightarrow> (ClientMapEntryUpdater \<times> RfhToIoThreadClientMap) outcome" where
  "ClientMapEntryUpdater_new m web_contents jdelegate =
     (let this = \<lparr>jdelegate_mem = JavaObjectWeakGlobalRef_new jdelegate\<rparr>;
          m' = (case GetMainFrame web_contents of
                  Some main_frame \<Rightarrow> RenderFrameCreated this m main_frame
                | None \<Rightarrow> m)
      in if jdelegate = None then DcheckFailed (this, m') else Passed (this, m'))"

subsection \<open>XWalkContentsIoThreadClient: construction\<close>

record XWalkContentsIoThreadClient =
  pending_association_mem :: bool
  java_object_mem :: jobject

text \<open>
  \<^verbatim>\<open>FromID(int render_process_id, int render_frame_id)\<close>. \<open>alive\<close> tells which Java
  objects exist when the weak reference is resolved. \<open>None\<close> is the empty
  \<^verbatim>\<open>unique_ptr\<close>.
\<close>

definition FromID ::
  "(nat \<Rightarrow> bool) \<Rightarrow> RfhToIoThreadClientMap \<Rightarrow> int \<Rightarrow> int
     \<Rightarrow> XWalkContentsIoThreadClient option outcome" where
  "FromID alive m render_process_id render_frame_id =
     (let rfh_id = (render_process_id, render_frame_id);
          (found, client_data) = Get_rfh_id m rfh_id IoThreadClientData_new
      in if found then
           (let java_delegate = JavaObjectWeakGlobalRef_get alive (io_thread_client client_data);
                client = \<lparr>pending_association_mem = pending_association client_data,
                          java_object_mem = java_delegate\<rparr>
            in if pending_association client_data \<and> java_delegate \<noteq> None
               then DcheckFailed (Some client) else Passed (Some client))
         else Passed None)"

text \<open>\<^verbatim>\<open>FromID(int frame_tree_node_id)\<close>\<close>

definition FromID_frame_tree_node_id ::
  "(nat \<Rightarrow> bool) \<Rightarrow> RfhToIoThreadClientMap \<Rightarrow> int
     \<Rightarrow> XWalkContentsIoThreadClient option outcome" where
  "FromID_frame_tree_node_id alive m frame_tree_node_id =
     (let (found, client_data) = Get_frame_tree_node_id m frame_tree_node_id IoThreadClientData_new
      in if found then
           (let java_delegate = JavaObjectWeakGlobalRef_get alive (io_thread_client client_data);
                client = \<lparr>pending_association_mem = pending_association client_data,
                          java_object_mem = java_delegate\<rparr>
            in if pending_association client_data \<and> java_delegate \<noteq> None
               then DcheckFailed (Some client) else Passed (Some client))
         else Passed None)"

text \<open>
  \<^verbatim>\<open>SubFrameCreated\<close>: without a record of the parent, \<^verbatim>\<open>NOTREACHED()\<close> and an early
  return.
\<close>

definition SubFrameCreated ::
  "RfhToIoThreadClientMap \<Rightarrow> int \<Rightarrow> int \<Rightarrow> int \<Rightarrow> RfhToIoThreadClientMap outcome" where
  "SubFrameCreated m render_process_id parent_render_frame_id child_render_frame_id =
     (let parent_rfh_id = (render_process_id, parent_render_frame_id);
          child_rfh_id = (render_process_id, child_render_frame_id);
          (found, client_data) = Get_rfh_id m parent_rfh_id IoThreadClientData_new
      in if \<not> found then DcheckFailed m
         else Passed (Set_rfh_id m child_rfh_id client_data))"

text \<open>
  \<^verbatim>\<open>RegisterPendingContents\<close> reads the identity of the main frame through the pointer
  \<^verbatim>\<open>GetMainFrame()\<close> returns, without a null test.
\<close>

definition RegisterPendingContents ::
  "RfhToIoThreadClientMap \<Rightarrow> WebContents \<Rightarrow> RfhToIoThreadClientMap outcome" where
  "RegisterPendingContents m web_contents =
     (let client_data = IoThreadClientData_new;
          client_data = client_data\<lparr>pending_association := True\<rparr>
      in case GetMainFrame web_contents of
           None \<Rightarrow> NullDeref
         | Some main_frame \<Rightarrow>
             Passed (Set_rfh_id m (GetRenderFrameHostIdPair main_frame) client_data))"

text \<open>\<^verbatim>\<open>Associate\<close>: the observer lives on, attached to the container.\<close>

definition Associate ::
  "RfhToIoThreadClientMap \<Rightarrow> WebContents \<Rightarrow> jobject
     \<Rightarrow> (ClientMapEntryUpdater \<times> RfhToIoThreadClientMap) outcome" where
  "Associate m web_contents jclient = ClientMapEntryUpdater_new m web_contents jclient"

subsection \<open>XWalkContentsIoThreadClient: policy queries\<close>

text \<open>
  Every query asserts that it runs on the IO thread; which thread runs a call is
  outside this development.
\<close>

text \<open>
  The Java methods behind the generated stubs of
  \<^verbatim>\<open>XWalkContentsIoThreadClient_jni.h\<close>, which is not among the sources: what each one
  answers for a delegate object and the marshalled arguments. Every query takes them
  as a parameter.
\<close>

record JavaStubs =
  Java_XWalkContentsIoThreadClient_getCacheMode :: "nat \<Rightarrow> int"
  Java_XWalkContentsIoThreadClient_shouldInterceptRequest ::
    "nat \<Rightarrow> string \<Rightarrow> bool \<Rightarrow> bool \<Rightarrow> string \<Rightarrow> string list \<Rightarrow> string list \<Rightarrow> jobject"
  Java_XWalkContentsIoThreadClient_shouldBlockContentUrls :: "nat \<Rightarrow> bool"
  Java_XWalkContentsIoThreadClient_shouldBlockFileUrls :: "nat \<Rightarrow> bool"
  Java_XWalkContentsIoThreadClient_shouldBlockNetworkLoads :: "nat \<Rightarrow> bool"
  Java_XWalkContentsIoThreadClient_shouldAcceptThirdPartyCookies :: "nat \<Rightarrow> bool"

text \<open>
  What the code reads of a \<^verbatim>\<open>net::URLRequest\<close> and of its
  \<^verbatim>\<open>content::ResourceRequestInfo\<close> (null when the request has none). Of the resource
  types the code names \<^verbatim>\<open>kMainFrame\<close> only. \<open>GetFullRequestHeaders\<close> is \<open>None\<close> when the
  call returns false.
\<close>

datatype ResourceType = kMainFrame | kOtherResourceType

record ResourceRequestInfo =
  GetResourceType :: ResourceType
  HasUserGesture :: bool

type_synonym HttpRequestHeaders = "(string \<times> string) list"

record URLRequest =
  url_spec :: string
  request_method :: string
  ForRequest :: "ResourceRequestInfo option"
  GetFullRequestHeaders :: "HttpRequestHeaders option"
  extra_request_headers :: HttpRequestHeaders

record HttpResponseHeaders =
  EnumerateHeaderLines :: "(string \<times> string) list"
  GetMimeType :: string
  GetCharset :: string
  response_code :: int
  GetStatusText :: string

datatype XWalkWebResourceResponse = XWalkWebResourceResponseImpl nat

definition PendingAssociation :: "XWalkContentsIoThreadClient \<Rightarrow> bool" where
  "PendingAssociation this = pending_association_mem this"

text \<open>
  \<^verbatim>\<open>GetCacheMode\<close>. The enumeration \<^verbatim>\<open>CacheMode\<close> is declared in the header, which is
  not among the sources: a cache mode is its integer value, and the value of
  \<^verbatim>\<open>LOAD_DEFAULT\<close> is a parameter.
\<close>

type_synonym CacheMode = int

definition GetCacheMode :: "CacheMode \<Rightarrow> JavaStubs \<Rightarrow> XWalkContentsIoThreadClient \<Rightarrow> CacheMode" where
  "GetCacheMode LOAD_DEFAULT jni this =
     (case java_object_mem this of
        None \<Rightarrow> LOAD_DEFAULT
      | Some obj \<Rightarrow> Java_XWalkContentsIoThreadClient_getCacheMode jni obj)"

definition request_is_main_frame :: "URLRequest \<Rightarrow> bool" where
  "request_is_main_frame request =
     (case ForRequest request of
        None \<Rightarrow> False
      | Some info \<Rightarrow> GetResourceType info = kMainFrame)"

definition request_has_user_gesture :: "URLRequest \<Rightarrow> bool" where
  "request_has_user_gesture request =
     (case ForRequest request of
        None \<Rightarrow> False
      | Some info \<Rightarrow> HasUserGesture info)"

definition request_headers :: "URLRequest \<Rightarrow> HttpRequestHeaders" where
  "request_headers request =
     (case GetFullRequestHeaders request of
        None \<Rightarrow> extra_request_headers request
      | Some headers \<Rightarrow> headers)"

text \<open>\<^verbatim>\<open>ShouldInterceptRequest(const GURL& location, const net::URLRequest* request)\<close>\<close>

definition ShouldInterceptRequest ::
  "JavaStubs \<Rightarrow> XWalkContentsIoThreadClient \<Rightarrow> string \<Rightarrow> URLRequest
     \<Rightarrow> XWalkWebResourceResponse option" where
  "ShouldInterceptRequest jni this location request =
     (case java_object_mem this of
        None \<Rightarrow> None
      | Some obj \<Rightarrow>
          (let is_main_frame = request_is_main_frame request;
               has_user_gesture = request_has_user_gesture request;
               headers_names = map fst (request_headers request);
               headers_values = map snd (request_headers request);
               ret = Java_XWalkContentsIoThreadClient_shouldInterceptRequest jni obj
                       location is_main_frame has_user_gesture (request_method request)
                       headers_names headers_values
           in case ret of
                None \<Rightarrow> None
              | Some r \<Rightarrow> Some (XWalkWebResourceResponseImpl r)))"

definition ShouldBlockContentUrls :: "JavaStubs \<Rightarrow> XWalkContentsIoThreadClient \<Rightarrow> bool" where
  "ShouldBlockContentUrls jni this =
     (case java_object_mem this of
        None \<Rightarrow> False
      | Some obj \<Rightarrow> Java_XWalkContentsIoThreadClient_shouldBlockContentUrls jni obj)"

definition ShouldBlockFileUrls :: "JavaStubs \<Rightarrow> XWalkContentsIoThreadClient \<Rightarrow> bool" where
  "ShouldBlockFileUrls jni this =
     (case java_object_mem this of
        None \<Rightarrow> False
      | Some obj \<Rightarrow> Java_XWalkContentsIoThreadClient_shouldBlockFileUrls jni obj)"

definition ShouldBlockNetworkLoads :: "JavaStubs \<Rightarrow> XWalkContentsIoThreadClient \<Rightarrow> bool" where
  "ShouldBlockNetworkLoads jni this =
     (case java_object_mem this of
        None \<Rightarrow> False
      | Some obj \<Rightarrow> Java_XWalkContentsIoThreadClient_shouldBlockNetworkLoads jni obj)"

definition ShouldAcceptThirdPartyCookies :: "JavaStubs \<Rightarrow> XWalkContentsIoThreadClient \<Rightarrow> bool" where
  "ShouldAcceptThirdPartyCookies jni this =
     (case java_object_mem this of
        None \<Rightarrow> False
      | Some obj \<Rightarrow> Java_XWalkContentsIoThreadClient_shouldAcceptThirdPartyCookies jni obj)"

text \<open>The struct \<^verbatim>\<open>WebResourceRequest\<close> and its constructor.\<close>

record WebResourceRequest =
  jstring_url :: string
  is_main_frame :: bool
  has_user_gesture :: bool
  jstring_method :: string
  jstringArray_header_names :: "string list"
  jstringArray_header_values :: "string list"

definition WebResourceRequest_new :: "URLRequest \<Rightarrow> WebResourceRequest" where
  "WebResourceRequest_new request =
     \<lparr>jstring_url = url_spec request,
      is_main_frame = request_is_main_frame request,
      has_user_gesture = request_has_user_gesture request,
      jstring_method = request_method request,
      jstringArray_header_names = map fst (request_headers request),
      jstringArray_header_values = map snd (request_headers request)\<rparr>"

text \<open>
  \<^verbatim>\<open>OnReceivedResponseHeaders\<close> returns nothing; what it does is call
  \<^verbatim>\<open>Java_XWalkContentsIoThreadClient_onReceivedResponseHeaders\<close>. The function gives the
  calls to Java it makes, each with its receiver and arguments.
\<close>

datatype JavaCall =
  Java_XWalkContentsIoThreadClient_onReceivedResponseHeaders
    nat WebResourceRequest string string int string "string list" "string list"

definition OnReceivedResponseHeaders ::
  "XWalkContentsIoThreadClient \<Rightarrow> URLRequest \<Rightarrow> HttpResponseHeaders \<Rightarrow> JavaCall list" where
  "OnReceivedResponseHeaders this request response_headers =
     (case java_object_mem this of
        None \<Rightarrow> []
      | Some obj \<Rightarrow>
          (let web_request = WebResourceRequest_new request;
               response_header_names = map fst (EnumerateHeaderLines response_headers);
               response_header_values = map snd (EnumerateHeaderLines response_headers);
               status_code = response_code response_headers
           in [Java_XWalkContentsIoThreadClient_onReceivedResponseHeaders obj web_request
                 (GetMimeType response_headers) (GetCharset response_headers) status_code
                 (GetStatusText response_headers)
                 response_header_names response_header_values]))"

subsection \<open>Sequences of calls\<close>

text \<open>
  The calls that reach the registry from outside this file: the two registration
  entry points, the frame events the browser delivers to an observer, and the
  sub-frame notification of the request thread. A frame event names the observer it
  is delivered to.
\<close>

datatype Event =
  RegisterPendingContentsEv WebContents
| AssociateEv WebContents jobject
| RenderFrameCreatedEv ClientMapEntryUpdater RenderFrameHost
| RenderFrameDeletedEv ClientMapEntryUpdater RenderFrameHost
| SubFrameCreatedEv int int int

fun registry_after :: "('b \<times> 'a) outcome \<Rightarrow> 'a outcome" where
  "registry_after (Passed x) = Passed (snd x)"
| "registry_after (DcheckFailed x) = DcheckFailed (snd x)"
| "registry_after NullDeref = NullDeref"

fun step :: "RfhToIoThreadClientMap \<Rightarrow> Event \<Rightarrow> RfhToIoThreadClientMap outcome" where
  "step m (RegisterPendingContentsEv web_contents) = RegisterPendingContents m web_contents"
| "step m (AssociateEv web_contents jclient) = registry_after (Associate m web_contents jclient)"
| "step m (RenderFrameCreatedEv observer rfh) = Passed (RenderFrameCreated observer m rfh)"
| "step m (RenderFrameDeletedEv observer rfh) = RenderFrameDeleted observer m rfh"
| "step m (SubFrameCreatedEv render_process_id parent_render_frame_id child_render_frame_id) =
     SubFrameCreated m render_process_id parent_render_frame_id child_render_frame_id"

text \<open>
  A failed check earlier in a sequence stays recorded: \<open>DcheckFailed m\<close> at the end
  says that a debug build stopped somewhere and a release build arrived at \<open>m\<close>.
\<close>

fun failed_before :: "'a outcome \<Rightarrow> 'a outcome" where
  "failed_before (Passed x) = DcheckFailed x"
| "failed_before (DcheckFailed x) = DcheckFailed x"
| "failed_before NullDeref = NullDeref"

fun run :: "RfhToIoThreadClientMap \<Rightarrow> Event list \<Rightarrow> RfhToIoThreadClientMap outcome" where
  "run m [] = Passed m"
| "run m (e # es) =
     (case step m e of
        Passed m' \<Rightarrow> run m' es
      | DcheckFailed m' \<Rightarrow> failed_before (run m' es)
      | NullDeref \<Rightarrow> NullDeref)"

text \<open>Frames added one after the other, each with its record, and frames erased one after the other.\<close>

fun Set_rfh_all ::
  "RfhToIoThreadClientMap \<Rightarrow> (RenderFrameHost \<times> IoThreadClientData) list \<Rightarrow> RfhToIoThreadClientMap" where
  "Set_rfh_all m [] = m"
| "Set_rfh_all m (fc # fcs) = Set_rfh_all (Set_rfh m (fst fc) (snd fc)) fcs"

fun Erase_all :: "RfhToIoThreadClientMap \<Rightarrow> RenderFrameHost list \<Rightarrow> RfhToIoThreadClientMap outcome" where
  "Erase_all m [] = Passed m"
| "Erase_all m (rfh # rfhs) =
     (case Erase m rfh of
        Passed m' \<Rightarrow> Erase_all m' rfhs
      | DcheckFailed m' \<Rightarrow> failed_before (Erase_all m' rfhs)
      | NullDeref \<Rightarrow> NullDeref)"

text \<open>Events other than an association or a frame creation.\<close>

fun creates_no_frame :: "Event \<Rightarrow> bool" where
  "creates_no_frame (AssociateEv web_contents jclient) = False"
| "creates_no_frame (RenderFrameCreatedEv observer rfh) = False"
| "creates_no_frame e = True"

subsection \<open>The invariant of the records\<close>

text \<open>A pending record carries no delegate; a registry is sound when all its records are.\<close>

definition record_inv :: "IoThreadClientData \<Rightarrow> bool" where
  "record_inv r = (pending_association r \<longrightarrow> io_thread_client r = None)"

definition registry_inv :: "RfhToIoThreadClientMap \<Rightarrow> bool" where
  "registry_inv m =
     ((\<forall>k r. rfh_to_io_thread_client m k = Some r \<longrightarrow> record_inv r)
      \<and> (\<forall>n e. frame_tree_node_to_io_thread_client m n = Some e \<longrightarrow> record_inv (snd e)))"

subsection \<open>Sample data\<close>

text \<open>
  A container whose main frame is frame 5 of process 3, in frame-tree node 1, and the
  registries used to exercise the theorems on concrete calls.
\<close>

definition frame1 :: RenderFrameHost where
  "frame1 = \<lparr>rfh_addr = 100, GetProcessID = 3, GetRoutingID = 5, GetFrameTreeNodeId = 1\<rparr>"

definition container1 :: WebContents where
  "container1 = \<lparr>GetMainFrame = Some frame1\<rparr>"

definition pending_record :: IoThreadClientData where
  "pending_record = \<lparr>pending_association = True, io_thread_client = None\<rparr>"

definition delegate_record :: IoThreadClientData where
  "delegate_record = \<lparr>pending_association = False, io_thread_client = Some 7\<rparr>"

definition registry_pending1 :: RfhToIoThreadClientMap where
  "registry_pending1 = Set_rfh_id GetInstance_initial (3, 5) pending_record"

definition registry_delegate1 :: RfhToIoThreadClientMap where
  "registry_delegate1 = Set_rfh_id GetInstance_initial (3, 5) delegate_record"

text \<open>
  A Java side that would answer every query with something other than the default, a
  request and a response, and the handle of a record whose delegate has been collected.
\<close>

definition eager_stubs :: JavaStubs where
  "eager_stubs =
     \<lparr>Java_XWalkContentsIoThreadClient_getCacheMode = (\<lambda>obj. 2),
      Java_XWalkContentsIoThreadClient_shouldInterceptRequest =
        (\<lambda>obj u mf ug me ns vs. Some 8),
      Java_XWalkContentsIoThreadClient_shouldBlockContentUrls = (\<lambda>obj. True),
      Java_XWalkContentsIoThreadClient_shouldBlockFileUrls = (\<lambda>obj. True),
      Java_XWalkContentsIoThreadClient_shouldBlockNetworkLoads = (\<lambda>obj. True),
      Java_XWalkContentsIoThreadClient_shouldAcceptThirdPartyCookies = (\<lambda>obj. True)\<rparr>"

definition request1 :: URLRequest where
  "request1 =
     \<lparr>url_spec = ''http://a/'', request_method = ''GET'',
      ForRequest = Some \<lparr>GetResourceType = kMainFrame, HasUserGesture = False\<rparr>,
      GetFullRequestHeaders = None,
      extra_request_headers = [(''Accept'', ''*/*'')]\<rparr>"

definition response1 :: HttpResponseHeaders where
  "response1 =
     \<lparr>EnumerateHeaderLines = [(''Content-Type'', ''text/html'')],
      GetMimeType = ''text/html'', GetCharset = '''', response_code = 200,
      GetStatusText = ''OK''\<rparr>"

definition collected_handle :: XWalkContentsIoThreadClient where
  "collected_handle =
     \<lparr>pending_association_mem = False,
      java_object_mem = JavaObjectWeakGlobalRef_get (\<lambda>obj. False) (Some 7)\<rparr>"

text \<open>A Java heap in which object 7 is the only one alive.\<close>

definition delegate7_alive :: "nat \<Rightarrow> bool" where
  "delegate7_alive obj = (obj = 7)"

text \<open>
  A second frame of frame-tree node 1, in another process, the two frames with the
  records they are added with, and the registry after frame 1 alone was added.
\<close>

definition frame2 :: RenderFrameHost where
  "frame2 = \<lparr>rfh_addr = 101, GetProcessID = 4, GetRoutingID = 6, GetFrameTreeNodeId = 1\<rparr>"

definition frames12 :: "(RenderFrameHost \<times> IoThreadClientData) list" where
  "frames12 = [(frame1, pending_record), (frame2, delegate_record)]"

definition registry_frame1 :: RfhToIoThreadClientMap where
  "registry_frame1 = Set_rfh GetInstance_initial frame1 delegate_record"

section \<open>Properties\<close>

lemma Set_rfh_id_twice:
  "Set_rfh_id (Set_rfh_id m rfh_id client) rfh_id client = Set_rfh_id m rfh_id client"
  by (simp add: Set_rfh_id_def)

text \<open>
  C8. Calling \<^verbatim>\<open>Set(rfh_id, client)\<close> twice in succession with the same identity and the
  same record leaves the registry as one call does: both lookups, by any identity and
  by any frame-tree-node id, answer the same, and the two registries are equal.
\<close>

theorem SetByFrameIdentity_idempotent:
  "Get_rfh_id (Set_rfh_id (Set_rfh_id m rfh_id client) rfh_id client) k c
     = Get_rfh_id (Set_rfh_id m rfh_id client) k c
   \<and> Get_frame_tree_node_id (Set_rfh_id (Set_rfh_id m rfh_id client) rfh_id client) n c
     = Get_frame_tree_node_id (Set_rfh_id m rfh_id client) n c
   \<and> Set_rfh_id (Set_rfh_id m rfh_id client) rfh_id client = Set_rfh_id m rfh_id client"
  by (simp add: Set_rfh_id_twice)

subsection \<open>Lookups\<close>

lemma Get_rfh_id_found:
  "Get_rfh_id m k c = (True, r) \<longleftrightarrow> rfh_to_io_thread_client m k = Some r"
  by (auto simp: Get_rfh_id_def split: option.splits)

lemma Get_rfh_id_not_found:
  "\<not> fst (Get_rfh_id m k c) \<longleftrightarrow> rfh_to_io_thread_client m k = None"
  by (auto simp: Get_rfh_id_def split: option.splits)

lemma Get_frame_tree_node_id_found:
  "Get_frame_tree_node_id m n c = (True, r) \<longleftrightarrow>
     (\<exists>hosts. frame_tree_node_to_io_thread_client m n = Some (hosts, r))"
  by (auto simp: Get_frame_tree_node_id_def split: option.splits)

lemma Get_rfh_id_Set_rfh_id:
  "Get_rfh_id (Set_rfh_id m k r) k c = (True, r)"
  by (simp add: Get_rfh_id_def Set_rfh_id_def)

lemma FromID_same_record:
  "rfh_to_io_thread_client m' k' = rfh_to_io_thread_client m k
   \<Longrightarrow> FromID alive m' (fst k') (snd k') = FromID alive m (fst k) (snd k)"
  by (simp add: FromID_def Get_rfh_id_def)

lemma continues_failed_before [simp]: "continues (failed_before x) = continues x"
  by (cases x) simp_all

text \<open>
  Seen from before and after the call, \<^verbatim>\<open>Set(rfh, client)\<close> has written both maps:
  either lookup for the frame returns \<open>client\<close>.
\<close>

lemma Set_rfh_writes_both_maps:
  "Get_rfh_id (Set_rfh m rfh client) (GetRenderFrameHostIdPair rfh) c = (True, client)
   \<and> Get_frame_tree_node_id (Set_rfh m rfh client) (GetFrameTreeNodeId rfh) c = (True, client)"
  by (simp add: Get_rfh_id_def Get_frame_tree_node_id_def Set_rfh_def Let_def)

subsection \<open>Sub-frame propagation\<close>

text \<open>
  C4. When the registry has a record \<open>R\<close> for \<open>(pid, parentId)\<close>,
  \<^verbatim>\<open>SubFrameCreated(pid, parentId, childId)\<close> passes and afterwards the lookup by the
  identity \<open>(pid, childId)\<close> returns \<open>R\<close>; the handle \<^verbatim>\<open>FromID\<close> builds for the child is
  the one it built for the parent. When the registry has no record for
  \<open>(pid, parentId)\<close>, the call takes the \<^verbatim>\<open>NOTREACHED()\<close> path and leaves the registry
  as it was, so no child entry is written.
\<close>

theorem SubFrameCreated_copies_parent_or_fails:
  "(Get_rfh_id m (pid, parentId) c = (True, R) \<longrightarrow>
      (\<exists>m'. SubFrameCreated m pid parentId childId = Passed m'
         \<and> Get_rfh_id m' (pid, childId) c' = (True, R)
         \<and> FromID alive m' pid childId = FromID alive m pid parentId))
   \<and> (fst (Get_rfh_id m (pid, parentId) c) = False \<longrightarrow>
        SubFrameCreated m pid parentId childId = DcheckFailed m)"
proof (intro conjI impI)
  assume "Get_rfh_id m (pid, parentId) c = (True, R)"
  then have p: "rfh_to_io_thread_client m (pid, parentId) = Some R"
    by (simp add: Get_rfh_id_found)
  then have s: "SubFrameCreated m pid parentId childId = Passed (Set_rfh_id m (pid, childId) R)"
    by (simp add: SubFrameCreated_def Get_rfh_id_def)
  have "rfh_to_io_thread_client (Set_rfh_id m (pid, childId) R) (pid, childId)
          = rfh_to_io_thread_client m (pid, parentId)"
    using p by (simp add: Set_rfh_id_def)
  from FromID_same_record [OF this]
  have "FromID alive (Set_rfh_id m (pid, childId) R) pid childId = FromID alive m pid parentId"
    by simp
  with s show "\<exists>m'. SubFrameCreated m pid parentId childId = Passed m'
         \<and> Get_rfh_id m' (pid, childId) c' = (True, R)
         \<and> FromID alive m' pid childId = FromID alive m pid parentId"
    by (simp add: Get_rfh_id_Set_rfh_id)
next
  assume "fst (Get_rfh_id m (pid, parentId) c) = False"
  then have "rfh_to_io_thread_client m (pid, parentId) = None"
    by (simp add: Get_rfh_id_not_found)
  then show "SubFrameCreated m pid parentId childId = DcheckFailed m"
    by (simp add: SubFrameCreated_def Get_rfh_id_def)
qed

theorem SubFrameCreated_copies_parent_or_fails_witness:
  "Get_rfh_id registry_delegate1 (3, 5) IoThreadClientData_new = (True, delegate_record)
   \<and> (\<exists>m'. SubFrameCreated registry_delegate1 3 5 7 = Passed m'
         \<and> Get_rfh_id m' (3, 7) IoThreadClientData_new = (True, delegate_record)
         \<and> FromID (\<lambda>obj. True) m' 3 7 = FromID (\<lambda>obj. True) registry_delegate1 3 5)
   \<and> fst (Get_rfh_id GetInstance_initial (3, 5) IoThreadClientData_new) = False
   \<and> SubFrameCreated GetInstance_initial 3 5 7 = DcheckFailed GetInstance_initial"
proof -
  have found: "Get_rfh_id registry_delegate1 (3, 5) IoThreadClientData_new = (True, delegate_record)"
    by (simp add: registry_delegate1_def Get_rfh_id_Set_rfh_id)
  have missing: "fst (Get_rfh_id GetInstance_initial (3, 5) IoThreadClientData_new) = False"
    by (simp add: Get_rfh_id_def GetInstance_initial_def)
  from found missing
    SubFrameCreated_copies_parent_or_fails
      [of registry_delegate1 3 5 IoThreadClientData_new delegate_record 7
          IoThreadClientData_new "\<lambda>obj. True"]
    SubFrameCreated_copies_parent_or_fails
      [of GetInstance_initial 3 5 IoThreadClientData_new delegate_record 7
          IoThreadClientData_new "\<lambda>obj. True"]
  show ?thesis by blast
qed

subsection \<open>The invariant holds after every sequence of calls\<close>

lemma registry_inv_rfh:
  "registry_inv m \<Longrightarrow> rfh_to_io_thread_client m k = Some r \<Longrightarrow> record_inv r"
  unfolding registry_inv_def by blast

lemma registry_inv_frame_tree_node:
  "registry_inv m \<Longrightarrow> frame_tree_node_to_io_thread_client m n = Some (hosts, r) \<Longrightarrow> record_inv r"
  unfolding registry_inv_def by fastforce

lemma registry_inv_initial: "registry_inv GetInstance_initial"
  by (simp add: registry_inv_def GetInstance_initial_def)

lemma registry_inv_Set_rfh_id:
  "registry_inv m \<Longrightarrow> record_inv r \<Longrightarrow> registry_inv (Set_rfh_id m k r)"
  by (simp add: registry_inv_def Set_rfh_id_def)

lemma registry_inv_Set_rfh:
  "registry_inv m \<Longrightarrow> record_inv r \<Longrightarrow> registry_inv (Set_rfh m rfh r)"
  by (simp add: registry_inv_def Set_rfh_def Let_def)

lemma record_inv_current_entry_of:
  "registry_inv m \<Longrightarrow> record_inv (snd (current_entry_of m n))"
  by (auto simp: registry_inv_def current_entry_of_def record_inv_def IoThreadClientData_new_def
           split: option.splits)

lemma registry_inv_Erase:
  assumes "registry_inv m" and "continues (Erase m rfh) = Some m'"
  shows "registry_inv m'"
proof -
  let ?n = "GetFrameTreeNodeId rfh"
  let ?hosts = "fst (current_entry_of m ?n) - {rfh_addr rfh}"
  let ?ftn = "if ?hosts = {}
              then (frame_tree_node_to_io_thread_client m)(?n := None)
              else (frame_tree_node_to_io_thread_client m)
                     (?n \<mapsto> (?hosts, snd (current_entry_of m ?n)))"
  from assms(2) have m': "m' = \<lparr>rfh_to_io_thread_client =
        (rfh_to_io_thread_client m)(GetRenderFrameHostIdPair rfh := None),
      frame_tree_node_to_io_thread_client = ?ftn\<rparr>"
    by (simp add: Erase_def Let_def split: if_splits)
  have "record_inv (snd (current_entry_of m ?n))"
    using assms(1) by (rule record_inv_current_entry_of)
  with assms(1) show ?thesis
    unfolding m' registry_inv_def by (auto split: if_splits)
qed

lemma record_inv_not_pending: "record_inv \<lparr>pending_association = False, io_thread_client = w\<rparr>"
  by (simp add: record_inv_def)

lemma registry_inv_RenderFrameCreated:
  "registry_inv m \<Longrightarrow> registry_inv (RenderFrameCreated observer m rfh)"
  by (simp add: RenderFrameCreated_def IoThreadClientData_new_def registry_inv_Set_rfh
        record_inv_not_pending)

lemma registry_inv_step:
  assumes "registry_inv m" and "continues (step m e) = Some m'"
  shows "registry_inv m'"
proof (cases e)
  case (RegisterPendingContentsEv wc)
  with assms show ?thesis
    by (auto simp: RegisterPendingContents_def IoThreadClientData_new_def record_inv_def
             intro!: registry_inv_Set_rfh_id split: option.splits)
next
  case (AssociateEv wc j)
  with assms show ?thesis
    by (auto simp: Associate_def ClientMapEntryUpdater_new_def Let_def
             intro!: registry_inv_RenderFrameCreated split: option.splits if_splits)
next
  case (RenderFrameCreatedEv ob rfh)
  with assms show ?thesis by (auto intro!: registry_inv_RenderFrameCreated)
next
  case (RenderFrameDeletedEv ob rfh)
  with assms show ?thesis by (auto simp: RenderFrameDeleted_def intro: registry_inv_Erase)
next
  case (SubFrameCreatedEv p a b)
  with assms show ?thesis
    by (auto simp: SubFrameCreated_def Get_rfh_id_def registry_inv_def Set_rfh_id_def
             split: option.splits if_splits)
qed

lemma registry_inv_run:
  "registry_inv m \<Longrightarrow> continues (run m es) = Some m' \<Longrightarrow> registry_inv m'"
proof (induction es arbitrary: m)
  case Nil
  then show ?case by simp
next
  case (Cons e es)
  show ?case
  proof (cases "step m e")
    case (Passed m1)
    then have "registry_inv m1" using Cons.prems(1) registry_inv_step [of m e m1] by simp
    with Cons Passed show ?thesis by simp
  next
    case (DcheckFailed m1)
    then have "registry_inv m1" using Cons.prems(1) registry_inv_step [of m e m1] by simp
    with Cons DcheckFailed show ?thesis by simp
  next
    case NullDeref
    with Cons.prems show ?thesis by simp
  qed
qed

lemma registry_inv_reachable:
  "continues (run GetInstance_initial evs) = Some m \<Longrightarrow> registry_inv m"
  using registry_inv_initial registry_inv_run by blast

lemma FromID_Passed:
  assumes "registry_inv m"
  shows "\<exists>h. FromID alive m p f = Passed h"
proof (cases "rfh_to_io_thread_client m (p, f)")
  case None
  then show ?thesis by (simp add: FromID_def Get_rfh_id_def)
next
  case (Some r)
  with assms have "record_inv r" by (simp add: registry_inv_rfh)
  with Some show ?thesis
    by (simp add: FromID_def Get_rfh_id_def Let_def record_inv_def JavaObjectWeakGlobalRef_get_def)
qed

lemma FromID_frame_tree_node_id_Passed:
  assumes "registry_inv m"
  shows "\<exists>h. FromID_frame_tree_node_id alive m n = Passed h"
proof (cases "frame_tree_node_to_io_thread_client m n")
  case None
  then show ?thesis by (simp add: FromID_frame_tree_node_id_def Get_frame_tree_node_id_def)
next
  case (Some e)
  with assms have "record_inv (snd e)" by (cases e) (simp add: registry_inv_frame_tree_node)
  with Some show ?thesis
    by (simp add: FromID_frame_tree_node_id_def Get_frame_tree_node_id_def Let_def record_inv_def
          JavaObjectWeakGlobalRef_get_def)
qed

lemma run_RegisterPendingContents_container1:
  "run GetInstance_initial [RegisterPendingContentsEv container1] = Passed registry_pending1"
  by (simp add: RegisterPendingContents_def container1_def frame1_def registry_pending1_def
        pending_record_def IoThreadClientData_new_def GetRenderFrameHostIdPair_def)

text \<open>
  C3. After every sequence of register-pending, associate, frame-created,
  frame-deleted and sub-frame-created calls from the empty registry (in a release
  build also past a failed check), every record that either lookup returns has an
  empty delegate reference when its pending flag is set, and so the check
  \<^verbatim>\<open>DCHECK(!client_data.pending_association || java_delegate.is_null())\<close> of both
  \<^verbatim>\<open>FromID\<close> functions passes. The converse is not required and does not hold: after
  an association whose delegate was collected since, \<^verbatim>\<open>FromID\<close> gives a handle that is
  not pending and has no delegate, with no check failed on the way; and a release build
  that associates a null delegate stores a record that is not pending and has an empty
  delegate reference.
\<close>

theorem pending_record_has_no_delegate:
  "(continues (run GetInstance_initial evs) = Some m \<longrightarrow>
      (Get_rfh_id m rfh_id c = (True, r) \<longrightarrow> pending_association r \<longrightarrow> io_thread_client r = None)
    \<and> (Get_frame_tree_node_id m n c = (True, r) \<longrightarrow>
         pending_association r \<longrightarrow> io_thread_client r = None)
    \<and> (\<exists>h. FromID alive m p f = Passed h)
    \<and> (\<exists>h. FromID_frame_tree_node_id alive m n = Passed h))
   \<and> (\<exists>evs' m' alive' p' f' h'.
         run GetInstance_initial evs' = Passed m'
       \<and> FromID alive' m' p' f' = Passed (Some h')
       \<and> \<not> PendingAssociation h' \<and> java_object_mem h' = None)
   \<and> (\<exists>evs' m' k' r'.
         continues (run GetInstance_initial evs') = Some m'
       \<and> Get_rfh_id m' k' c = (True, r')
       \<and> \<not> pending_association r' \<and> io_thread_client r' = None)"
proof (intro conjI impI)
  assume "continues (run GetInstance_initial evs) = Some m"
  then have inv: "registry_inv m" by (rule registry_inv_reachable)
  {
    assume "Get_rfh_id m rfh_id c = (True, r)" and "pending_association r"
    with inv show "io_thread_client r = None"
      using registry_inv_rfh [of m rfh_id r] by (simp add: Get_rfh_id_found record_inv_def)
  }
  {
    assume "Get_frame_tree_node_id m n c = (True, r)" and "pending_association r"
    with inv show "io_thread_client r = None"
      using registry_inv_frame_tree_node [of m n _ r]
      by (auto simp: Get_frame_tree_node_id_found record_inv_def)
  }
  from inv show "\<exists>h. FromID alive m p f = Passed h" by (rule FromID_Passed)
  from inv show "\<exists>h. FromID_frame_tree_node_id alive m n = Passed h"
    by (rule FromID_frame_tree_node_id_Passed)
next
  let ?m = "RenderFrameCreated \<lparr>jdelegate_mem = Some 7\<rparr> GetInstance_initial frame1"
  have "run GetInstance_initial [AssociateEv container1 (Some 7)] = Passed ?m"
    by (simp add: Associate_def ClientMapEntryUpdater_new_def container1_def
          JavaObjectWeakGlobalRef_new_def Let_def)
  moreover have "FromID (\<lambda>obj. False) ?m 3 5
      = Passed (Some \<lparr>pending_association_mem = False, java_object_mem = None\<rparr>)"
    by (simp add: FromID_def Get_rfh_id_def RenderFrameCreated_def Set_rfh_def Let_def frame1_def
          GetRenderFrameHostIdPair_def IoThreadClientData_new_def JavaObjectWeakGlobalRef_get_def)
  ultimately show "\<exists>evs' m' alive' p' f' h'.
         run GetInstance_initial evs' = Passed m'
       \<and> FromID alive' m' p' f' = Passed (Some h')
       \<and> \<not> PendingAssociation h' \<and> java_object_mem h' = None"
    by (fastforce simp: PendingAssociation_def)
next
  let ?m = "RenderFrameCreated \<lparr>jdelegate_mem = None\<rparr> GetInstance_initial frame1"
  have "continues (run GetInstance_initial [AssociateEv container1 None]) = Some ?m"
    by (simp add: Associate_def ClientMapEntryUpdater_new_def container1_def
          JavaObjectWeakGlobalRef_new_def Let_def)
  moreover have "Get_rfh_id ?m (3, 5) c
      = (True, \<lparr>pending_association = False, io_thread_client = None\<rparr>)"
    by (simp add: Get_rfh_id_def RenderFrameCreated_def Set_rfh_def Let_def frame1_def
          GetRenderFrameHostIdPair_def IoThreadClientData_new_def)
  ultimately show "\<exists>evs' m' k' r'.
         continues (run GetInstance_initial evs') = Some m'
       \<and> Get_rfh_id m' k' c = (True, r')
       \<and> \<not> pending_association r' \<and> io_thread_client r' = None"
    by fastforce
qed

theorem pending_record_has_no_delegate_witness:
  "continues (run GetInstance_initial [RegisterPendingContentsEv container1]) = Some registry_pending1
   \<and> Get_rfh_id registry_pending1 (3, 5) IoThreadClientData_new = (True, pending_record)
   \<and> pending_association pending_record
   \<and> io_thread_client pending_record = None
   \<and> (\<exists>h. FromID (\<lambda>obj. True) registry_pending1 3 5 = Passed h)"
proof -
  have reach: "continues (run GetInstance_initial [RegisterPendingContentsEv container1])
                 = Some registry_pending1"
    by (simp only: run_RegisterPendingContents_container1 continues.simps)
  have found: "Get_rfh_id registry_pending1 (3, 5) IoThreadClientData_new = (True, pending_record)"
    by (simp add: registry_pending1_def Get_rfh_id_Set_rfh_id)
  have pending: "pending_association pending_record"
    by (simp add: pending_record_def)
  from reach found pending
    pending_record_has_no_delegate
      [of "[RegisterPendingContentsEv container1]" registry_pending1 "(3, 5)"
          IoThreadClientData_new pending_record 1 "\<lambda>obj. True" 3 5]
  show ?thesis by blast
qed

text \<open>
  C10. \<^verbatim>\<open>SubFrameCreated\<close> copies the parent's record as it is, pending flag included:
  when the record of \<open>(pid, parentId)\<close> is pending, the call passes (the parent is not
  treated as missing) and the record of \<open>(pid, childId)\<close> is that same record, so it is
  pending too. In a registry reached by a sequence of calls the record moreover has an
  empty delegate reference, and \<^verbatim>\<open>FromID\<close> gives the child a pending handle without a
  delegate.
\<close>

theorem SubFrameCreated_propagates_pending:
  assumes "Get_rfh_id m (pid, parentId) c = (True, r)"
    and "pending_association r"
  shows "\<exists>m' r'. SubFrameCreated m pid parentId childId = Passed m'
           \<and> Get_rfh_id m' (pid, childId) c' = (True, r')
           \<and> r' = r
           \<and> pending_association r'
           \<and> (continues (run GetInstance_initial evs) = Some m \<longrightarrow>
                io_thread_client r' = None
              \<and> FromID alive m' pid childId
                  = Passed (Some \<lparr>pending_association_mem = True, java_object_mem = None\<rparr>))"
proof -
  from assms(1) have p: "rfh_to_io_thread_client m (pid, parentId) = Some r"
    by (simp add: Get_rfh_id_found)
  then have s: "SubFrameCreated m pid parentId childId = Passed (Set_rfh_id m (pid, childId) r)"
    by (simp add: SubFrameCreated_def Get_rfh_id_def)
  have g: "Get_rfh_id (Set_rfh_id m (pid, childId) r) (pid, childId) c' = (True, r)"
    by (rule Get_rfh_id_Set_rfh_id)
  have "io_thread_client r = None
        \<and> FromID alive (Set_rfh_id m (pid, childId) r) pid childId
            = Passed (Some \<lparr>pending_association_mem = True, java_object_mem = None\<rparr>)"
    if "continues (run GetInstance_initial evs) = Some m"
  proof -
    from that have "registry_inv m" by (rule registry_inv_reachable)
    with p have "record_inv r" by (simp add: registry_inv_rfh)
    with assms(2) have e: "io_thread_client r = None" by (simp add: record_inv_def)
    with assms(2) show ?thesis
      by (simp add: FromID_def Get_rfh_id_Set_rfh_id JavaObjectWeakGlobalRef_get_def)
  qed
  with s g assms(2) show ?thesis by simp
qed

theorem SubFrameCreated_propagates_pending_witness:
  "Get_rfh_id registry_pending1 (3, 5) IoThreadClientData_new = (True, pending_record)
   \<and> pending_association pending_record
   \<and> continues (run GetInstance_initial [RegisterPendingContentsEv container1])
       = Some registry_pending1
   \<and> (\<exists>m' r'. SubFrameCreated registry_pending1 3 5 7 = Passed m'
         \<and> Get_rfh_id m' (3, 7) IoThreadClientData_new = (True, r')
         \<and> pending_association r'
         \<and> io_thread_client r' = None
         \<and> FromID (\<lambda>obj. True) m' 3 7
             = Passed (Some \<lparr>pending_association_mem = True, java_object_mem = None\<rparr>))"
proof -
  have reach: "continues (run GetInstance_initial [RegisterPendingContentsEv container1])
                 = Some registry_pending1"
    by (simp only: run_RegisterPendingContents_container1 continues.simps)
  have found: "Get_rfh_id registry_pending1 (3, 5) IoThreadClientData_new = (True, pending_record)"
    by (simp add: registry_pending1_def Get_rfh_id_Set_rfh_id)
  have pending: "pending_association pending_record"
    by (simp add: pending_record_def)
  from reach
    SubFrameCreated_propagates_pending
      [OF found pending, of 7 IoThreadClientData_new
          "[RegisterPendingContentsEv container1]" "\<lambda>obj. True"]
  have "\<exists>m' r'. SubFrameCreated registry_pending1 3 5 7 = Passed m'
         \<and> Get_rfh_id m' (3, 7) IoThreadClientData_new = (True, r')
         \<and> pending_association r'
         \<and> io_thread_client r' = None
         \<and> FromID (\<lambda>obj. True) m' 3 7
             = Passed (Some \<lparr>pending_association_mem = True, java_object_mem = None\<rparr>)"
    by blast
  with reach found pending show ?thesis by blast
qed

subsection \<open>Handles without a delegate\<close>

lemma defaults_without_delegate:
  assumes "java_object_mem this = None"
  shows "GetCacheMode LOAD_DEFAULT jni this = LOAD_DEFAULT"
    and "ShouldInterceptRequest jni this location request = None"
    and "\<not> ShouldBlockContentUrls jni this"
    and "\<not> ShouldBlockFileUrls jni this"
    and "\<not> ShouldBlockNetworkLoads jni this"
    and "\<not> ShouldAcceptThirdPartyCookies jni this"
    and "OnReceivedResponseHeaders this request response_headers = []"
  using assms
  by (simp_all add: GetCacheMode_def ShouldInterceptRequest_def ShouldBlockContentUrls_def
        ShouldBlockFileUrls_def ShouldBlockNetworkLoads_def ShouldAcceptThirdPartyCookies_def
        OnReceivedResponseHeaders_def)

text \<open>
  C6. A handle whose resolved delegate is absent answers every query with its fixed
  default whatever the Java side would answer (\<open>jni\<close> is arbitrary): cache mode
  \<^verbatim>\<open>LOAD_DEFAULT\<close>, no intercepted response, \<open>False\<close> for the four boolean queries; and
  \<^verbatim>\<open>OnReceivedResponseHeaders\<close> makes no call to Java. The delegate is absent both when
  the weak reference is empty and when its object is no longer alive at resolution.
\<close>

theorem absent_delegate_gives_defaults:
  "(java_object_mem this = None \<longrightarrow>
      GetCacheMode LOAD_DEFAULT jni this = LOAD_DEFAULT
    \<and> ShouldInterceptRequest jni this location request = None
    \<and> \<not> ShouldBlockContentUrls jni this
    \<and> \<not> ShouldBlockFileUrls jni this
    \<and> \<not> ShouldBlockNetworkLoads jni this
    \<and> \<not> ShouldAcceptThirdPartyCookies jni this
    \<and> OnReceivedResponseHeaders this request response_headers = [])
   \<and> JavaObjectWeakGlobalRef_get alive None = None
   \<and> (\<not> alive obj \<longrightarrow> JavaObjectWeakGlobalRef_get alive (Some obj) = None)"
  by (simp add: defaults_without_delegate JavaObjectWeakGlobalRef_get_def)

theorem absent_delegate_gives_defaults_witness:
  "java_object_mem collected_handle = None
   \<and> GetCacheMode (-1) eager_stubs collected_handle = -1
   \<and> ShouldInterceptRequest eager_stubs collected_handle ''http://a/'' request1 = None
   \<and> \<not> ShouldBlockContentUrls eager_stubs collected_handle
   \<and> \<not> ShouldBlockFileUrls eager_stubs collected_handle
   \<and> \<not> ShouldBlockNetworkLoads eager_stubs collected_handle
   \<and> \<not> ShouldAcceptThirdPartyCookies eager_stubs collected_handle
   \<and> OnReceivedResponseHeaders collected_handle request1 response1 = []
   \<and> JavaObjectWeakGlobalRef_get (\<lambda>obj. False) (Some 7) = None"
proof -
  have absent: "java_object_mem collected_handle = None"
    by (simp add: collected_handle_def JavaObjectWeakGlobalRef_get_def)
  have dead: "\<not> (\<lambda>obj::nat. False) 7" by simp
  from absent dead
    absent_delegate_gives_defaults
      [of collected_handle "-1" eager_stubs "''http://a/''" request1 response1
          "\<lambda>obj. False" 7]
  show ?thesis by blast
qed

text \<open>
  C5. For a container \<open>C\<close> with main frame \<open>F\<close>, \<^verbatim>\<open>RegisterPendingContents(C)\<close> passes,
  and afterwards \<^verbatim>\<open>FromID\<close> at the identity of \<open>F\<close> passes with a handle whose pending
  flag is set and whose delegate is null; every policy query on that handle returns
  its default: cache mode \<^verbatim>\<open>LOAD_DEFAULT\<close>, no intercepted response, and \<open>False\<close> for
  the four boolean queries.
\<close>

theorem RegisterPendingContents_gives_pending_handle:
  assumes "GetMainFrame C = Some F"
  shows "\<exists>m' h. RegisterPendingContents m C = Passed m'
           \<and> FromID alive m' (GetProcessID F) (GetRoutingID F) = Passed (Some h)
           \<and> h = \<lparr>pending_association_mem = True, java_object_mem = None\<rparr>
           \<and> PendingAssociation h
           \<and> GetCacheMode LOAD_DEFAULT jni h = LOAD_DEFAULT
           \<and> ShouldInterceptRequest jni h location request = None
           \<and> \<not> ShouldBlockContentUrls jni h
           \<and> \<not> ShouldBlockFileUrls jni h
           \<and> \<not> ShouldBlockNetworkLoads jni h
           \<and> \<not> ShouldAcceptThirdPartyCookies jni h"
proof -
  let ?r = "\<lparr>pending_association = True, io_thread_client = None\<rparr>"
  let ?h = "\<lparr>pending_association_mem = True, java_object_mem = None\<rparr>"
  let ?m' = "Set_rfh_id m (GetProcessID F, GetRoutingID F) ?r"
  from assms have s: "RegisterPendingContents m C = Passed ?m'"
    by (simp add: RegisterPendingContents_def IoThreadClientData_new_def
          GetRenderFrameHostIdPair_def)
  have f: "FromID alive ?m' (GetProcessID F) (GetRoutingID F) = Passed (Some ?h)"
    by (simp add: FromID_def Get_rfh_id_Set_rfh_id JavaObjectWeakGlobalRef_get_def)
  have n: "java_object_mem ?h = None" by simp
  have "PendingAssociation ?h" by (simp add: PendingAssociation_def)
  with s f defaults_without_delegate(1-6) [OF n] show ?thesis by simp
qed

theorem RegisterPendingContents_gives_pending_handle_witness:
  "GetMainFrame container1 = Some frame1
   \<and> (\<exists>m' h. RegisterPendingContents registry_delegate1 container1 = Passed m'
         \<and> FromID (\<lambda>obj. True) m' 3 5 = Passed (Some h)
         \<and> PendingAssociation h
         \<and> GetCacheMode (-1) eager_stubs h = -1
         \<and> ShouldInterceptRequest eager_stubs h ''http://a/'' request1 = None
         \<and> \<not> ShouldBlockContentUrls eager_stubs h
         \<and> \<not> ShouldBlockFileUrls eager_stubs h
         \<and> \<not> ShouldBlockNetworkLoads eager_stubs h
         \<and> \<not> ShouldAcceptThirdPartyCookies eager_stubs h)"
proof -
  have main: "GetMainFrame container1 = Some frame1" by (simp add: container1_def)
  have ids: "GetProcessID frame1 = 3" "GetRoutingID frame1 = 5" by (simp_all add: frame1_def)
  from RegisterPendingContents_gives_pending_handle
      [OF main, of registry_delegate1 "\<lambda>obj. True" "-1" eager_stubs "''http://a/''" request1]
  have "\<exists>m' h. RegisterPendingContents registry_delegate1 container1 = Passed m'
         \<and> FromID (\<lambda>obj. True) m' 3 5 = Passed (Some h)
         \<and> PendingAssociation h
         \<and> GetCacheMode (-1) eager_stubs h = -1
         \<and> ShouldInterceptRequest eager_stubs h ''http://a/'' request1 = None
         \<and> \<not> ShouldBlockContentUrls eager_stubs h
         \<and> \<not> ShouldBlockFileUrls eager_stubs h
         \<and> \<not> ShouldBlockNetworkLoads eager_stubs h
         \<and> \<not> ShouldAcceptThirdPartyCookies eager_stubs h"
    unfolding ids by blast
  with main show ?thesis by blast
qed

subsection \<open>Association\<close>

lemma FromID_Set_rfh:
  "FromID alive (Set_rfh m rfh \<lparr>pending_association = False, io_thread_client = w\<rparr>)
     (GetProcessID rfh) (GetRoutingID rfh)
   = Passed (Some \<lparr>pending_association_mem = False,
                   java_object_mem = JavaObjectWeakGlobalRef_get alive w\<rparr>)"
  by (simp add: FromID_def Get_rfh_id_def Set_rfh_def Let_def GetRenderFrameHostIdPair_def)

text \<open>
  C7. When the container \<open>C\<close> already has a main frame \<open>F1\<close>, \<^verbatim>\<open>Associate(C, D)\<close> with a
  delegate \<open>D\<close> passes, and the registry it leaves is the one the new observer's
  \<^verbatim>\<open>RenderFrameCreated(F1)\<close> gives. A lookup by the identity of \<open>F1\<close> that follows
  passes with a handle that is not pending, whatever the registry held for \<open>F1\<close>
  before, and the handle holds \<open>D\<close> as long as \<open>D\<close> is alive when the lookup resolves
  the weak reference.
\<close>

theorem Associate_binds_existing_main_frame:
  assumes "GetMainFrame C = Some F1"
  shows "\<exists>observer m' h. Associate m C (Some D) = Passed (observer, m')
           \<and> m' = RenderFrameCreated observer m F1
           \<and> FromID alive m' (GetProcessID F1) (GetRoutingID F1) = Passed (Some h)
           \<and> \<not> PendingAssociation h
           \<and> (alive D \<longrightarrow> java_object_mem h = Some D)"
proof -
  let ?ob = "\<lparr>jdelegate_mem = Some D\<rparr>"
  let ?m' = "RenderFrameCreated ?ob m F1"
  let ?h = "\<lparr>pending_association_mem = False,
             java_object_mem = JavaObjectWeakGlobalRef_get alive (Some D)\<rparr>"
  from assms have a: "Associate m C (Some D) = Passed (?ob, ?m')"
    by (simp add: Associate_def ClientMapEntryUpdater_new_def JavaObjectWeakGlobalRef_new_def
          Let_def)
  have "?m' = Set_rfh m F1 \<lparr>pending_association = False, io_thread_client = Some D\<rparr>"
    by (simp add: RenderFrameCreated_def IoThreadClientData_new_def)
  then have f: "FromID alive ?m' (GetProcessID F1) (GetRoutingID F1) = Passed (Some ?h)"
    by (simp only: FromID_Set_rfh)
  have p: "\<not> PendingAssociation ?h" by (simp add: PendingAssociation_def)
  have d: "alive D \<longrightarrow> java_object_mem ?h = Some D"
    by (simp add: JavaObjectWeakGlobalRef_get_def)
  from a f p d show ?thesis by blast
qed

theorem Associate_binds_existing_main_frame_witness:
  "GetMainFrame container1 = Some frame1
   \<and> delegate7_alive 7
   \<and> (\<exists>observer m' h. Associate registry_pending1 container1 (Some 7) = Passed (observer, m')
         \<and> FromID delegate7_alive m' 3 5 = Passed (Some h)
         \<and> \<not> PendingAssociation h
         \<and> java_object_mem h = Some 7)"
proof -
  have main: "GetMainFrame container1 = Some frame1" by (simp add: container1_def)
  have live: "delegate7_alive 7" by (simp add: delegate7_alive_def)
  have ids: "GetProcessID frame1 = 3" "GetRoutingID frame1 = 5" by (simp_all add: frame1_def)
  from live
    Associate_binds_existing_main_frame
      [OF main, of registry_pending1 7 delegate7_alive]
  have "\<exists>observer m' h. Associate registry_pending1 container1 (Some 7) = Passed (observer, m')
         \<and> FromID delegate7_alive m' 3 5 = Passed (Some h)
         \<and> \<not> PendingAssociation h
         \<and> java_object_mem h = Some 7"
    unfolding ids by blast
  with main live show ?thesis by blast
qed

subsection \<open>Pending registration and the frame-tree-node map\<close>

lemma Erase_keeps_frame_tree_node_empty:
  assumes "frame_tree_node_to_io_thread_client m = Map.empty"
    and "continues (Erase m rfh) = Some m'"
  shows "frame_tree_node_to_io_thread_client m' = Map.empty"
proof -
  have "fst (current_entry_of m (GetFrameTreeNodeId rfh)) = {}"
    using assms(1) by (simp add: current_entry_of_def)
  with assms show ?thesis
    by (auto simp: Erase_def Let_def split: if_splits)
qed

lemma step_keeps_frame_tree_node_empty:
  assumes "creates_no_frame e"
    and "frame_tree_node_to_io_thread_client m = Map.empty"
    and "continues (step m e) = Some m'"
  shows "frame_tree_node_to_io_thread_client m' = Map.empty"
proof (cases e)
  case (RegisterPendingContentsEv wc)
  with assms show ?thesis
    by (auto simp: RegisterPendingContents_def Set_rfh_id_def split: option.splits)
next
  case (AssociateEv wc j)
  with assms(1) show ?thesis by simp
next
  case (RenderFrameCreatedEv ob rfh)
  with assms(1) show ?thesis by simp
next
  case (RenderFrameDeletedEv ob rfh)
  with assms show ?thesis
    by (auto simp: RenderFrameDeleted_def intro: Erase_keeps_frame_tree_node_empty)
next
  case (SubFrameCreatedEv p a b)
  with assms show ?thesis
    by (auto simp: SubFrameCreated_def Get_rfh_id_def Set_rfh_id_def
             split: option.splits if_splits)
qed

lemma run_keeps_frame_tree_node_empty:
  "list_all creates_no_frame es \<Longrightarrow> frame_tree_node_to_io_thread_client m = Map.empty
   \<Longrightarrow> continues (run m es) = Some m'
   \<Longrightarrow> frame_tree_node_to_io_thread_client m' = Map.empty"
proof (induction es arbitrary: m)
  case Nil
  then show ?case by simp
next
  case (Cons e es)
  from Cons.prems(1) have e: "creates_no_frame e" and es: "list_all creates_no_frame es"
    by simp_all
  show ?case
  proof (cases "step m e")
    case (Passed m1)
    then have "frame_tree_node_to_io_thread_client m1 = Map.empty"
      using step_keeps_frame_tree_node_empty [OF e Cons.prems(2), of m1] by simp
    with Cons.IH [OF es this] Cons.prems(3) Passed show ?thesis by simp
  next
    case (DcheckFailed m1)
    then have "frame_tree_node_to_io_thread_client m1 = Map.empty"
      using step_keeps_frame_tree_node_empty [OF e Cons.prems(2), of m1] by simp
    with Cons.IH [OF es this] Cons.prems(3) DcheckFailed show ?thesis by simp
  next
    case NullDeref
    with Cons.prems(3) show ?thesis by simp
  qed
qed

text \<open>
  C9. For a container \<open>C\<close> with main frame \<open>F\<close>, \<^verbatim>\<open>RegisterPendingContents(C)\<close> leaves the
  frame-tree-node map as it was and stores the pending record under the identity of
  \<open>F\<close>. When the registry was reached from the empty one by calls none of which is an
  association or a frame creation, the lookup by the frame-tree-node id of \<open>F\<close> finds
  nothing afterwards (\<^verbatim>\<open>Get\<close> returns false and \<^verbatim>\<open>FromID\<close> an empty pointer), while the
  lookup by the identity of \<open>F\<close> returns the pending record.
\<close>

theorem RegisterPendingContents_skips_frame_tree_node_map:
  assumes "GetMainFrame C = Some F"
  shows "\<exists>m'. RegisterPendingContents m C = Passed m'
           \<and> frame_tree_node_to_io_thread_client m' = frame_tree_node_to_io_thread_client m
           \<and> Get_rfh_id m' (GetRenderFrameHostIdPair F) c
               = (True, \<lparr>pending_association = True, io_thread_client = None\<rparr>)
           \<and> (list_all creates_no_frame evs
                \<and> continues (run GetInstance_initial evs) = Some m \<longrightarrow>
                Get_frame_tree_node_id m' (GetFrameTreeNodeId F) c = (False, c)
              \<and> FromID_frame_tree_node_id alive m' (GetFrameTreeNodeId F) = Passed None)"
proof -
  let ?r = "\<lparr>pending_association = True, io_thread_client = None\<rparr>"
  let ?m' = "Set_rfh_id m (GetRenderFrameHostIdPair F) ?r"
  from assms have s: "RegisterPendingContents m C = Passed ?m'"
    by (simp add: RegisterPendingContents_def IoThreadClientData_new_def)
  have same: "frame_tree_node_to_io_thread_client ?m' = frame_tree_node_to_io_thread_client m"
    by (simp add: Set_rfh_id_def)
  have g: "Get_rfh_id ?m' (GetRenderFrameHostIdPair F) c = (True, ?r)"
    by (rule Get_rfh_id_Set_rfh_id)
  have "Get_frame_tree_node_id ?m' (GetFrameTreeNodeId F) c = (False, c)
        \<and> FromID_frame_tree_node_id alive ?m' (GetFrameTreeNodeId F) = Passed None"
    if "list_all creates_no_frame evs \<and> continues (run GetInstance_initial evs) = Some m"
  proof -
    have "frame_tree_node_to_io_thread_client GetInstance_initial = Map.empty"
      by (simp add: GetInstance_initial_def)
    with that have "frame_tree_node_to_io_thread_client m = Map.empty"
      using run_keeps_frame_tree_node_empty [of evs GetInstance_initial m] by simp
    with same have "frame_tree_node_to_io_thread_client ?m' = Map.empty" by simp
    then show ?thesis
      by (simp add: Get_frame_tree_node_id_def FromID_frame_tree_node_id_def)
  qed
  with s same g show ?thesis by blast
qed

theorem RegisterPendingContents_skips_frame_tree_node_map_witness:
  "GetMainFrame container1 = Some frame1
   \<and> list_all creates_no_frame [RegisterPendingContentsEv container1]
   \<and> continues (run GetInstance_initial [RegisterPendingContentsEv container1])
       = Some registry_pending1
   \<and> (\<exists>m'. RegisterPendingContents registry_pending1 container1 = Passed m'
         \<and> Get_rfh_id m' (3, 5) IoThreadClientData_new = (True, pending_record)
         \<and> Get_frame_tree_node_id m' 1 IoThreadClientData_new = (False, IoThreadClientData_new)
         \<and> FromID_frame_tree_node_id (\<lambda>obj. True) m' 1 = Passed None)"
proof -
  have main: "GetMainFrame container1 = Some frame1" by (simp add: container1_def)
  have quiet: "list_all creates_no_frame [RegisterPendingContentsEv container1]" by simp
  have reach: "continues (run GetInstance_initial [RegisterPendingContentsEv container1])
                 = Some registry_pending1"
    by (simp only: run_RegisterPendingContents_container1 continues.simps)
  have ids: "GetRenderFrameHostIdPair frame1 = (3, 5)" "GetFrameTreeNodeId frame1 = 1"
    by (simp_all add: frame1_def GetRenderFrameHostIdPair_def)
  from quiet reach
    RegisterPendingContents_skips_frame_tree_node_map
      [OF main, of registry_pending1 IoThreadClientData_new
          "[RegisterPendingContentsEv container1]" "\<lambda>obj. True"]
  have "\<exists>m'. RegisterPendingContents registry_pending1 container1 = Passed m'
         \<and> Get_rfh_id m' (3, 5) IoThreadClientData_new = (True, pending_record)
         \<and> Get_frame_tree_node_id m' 1 IoThreadClientData_new = (False, IoThreadClientData_new)
         \<and> FromID_frame_tree_node_id (\<lambda>obj. True) m' 1 = Passed None"
    unfolding ids pending_record_def by blast
  with main quiet reach show ?thesis by blast
qed

subsection \<open>Occupant sets\<close>

lemma current_entry_of_Set_rfh:
  "current_entry_of (Set_rfh m rfh client) (GetFrameTreeNodeId rfh)
     = (insert (rfh_addr rfh) (fst (current_entry_of m (GetFrameTreeNodeId rfh))), client)"
  by (simp add: current_entry_of_def Set_rfh_def Let_def)

lemma Set_rfh_all_frame_tree_node:
  assumes "\<forall>fc\<in>set fcs. GetFrameTreeNodeId (fst fc) = n" and "fcs \<noteq> []"
  shows "frame_tree_node_to_io_thread_client (Set_rfh_all m fcs) n
           = Some (fst (current_entry_of m n) \<union> (rfh_addr \<circ> fst) ` set fcs, snd (last fcs))"
  using assms
proof (induction fcs arbitrary: m)
  case Nil
  then show ?case by simp
next
  case (Cons fc rest)
  from Cons.prems(1) have n: "GetFrameTreeNodeId (fst fc) = n" by simp
  let ?m1 = "Set_rfh m (fst fc) (snd fc)"
  have cur: "current_entry_of ?m1 n = (insert (rfh_addr (fst fc)) (fst (current_entry_of m n)), snd fc)"
    using current_entry_of_Set_rfh [of m "fst fc" "snd fc"] n by simp
  show ?case
  proof (cases "rest = []")
    case True
    then show ?thesis using n by (simp add: Set_rfh_def Let_def)
  next
    case False
    from Cons.prems(1) have "\<forall>fc\<in>set rest. GetFrameTreeNodeId (fst fc) = n" by simp
    from Cons.IH [OF this False, of ?m1] cur False show ?thesis by simp
  qed
qed

lemma Erase_present:
  assumes "frame_tree_node_to_io_thread_client m (GetFrameTreeNodeId rfh) = Some (S, r)"
    and "rfh_addr rfh \<in> S"
  shows "\<exists>m'. Erase m rfh = Passed m'
           \<and> frame_tree_node_to_io_thread_client m' (GetFrameTreeNodeId rfh)
               = (if S - {rfh_addr rfh} = {} then None else Some (S - {rfh_addr rfh}, r))
           \<and> rfh_to_io_thread_client m' (GetRenderFrameHostIdPair rfh) = None"
  using assms by (simp add: Erase_def Let_def current_entry_of_def)

lemma Erase_all_frame_tree_node:
  assumes "frame_tree_node_to_io_thread_client m n = Some (S, r)"
    and "S \<noteq> {}"
    and "\<forall>f\<in>set es. GetFrameTreeNodeId f = n"
    and "distinct (map rfh_addr es)"
    and "rfh_addr ` set es \<subseteq> S"
  shows "\<exists>m'. Erase_all m es = Passed m'
           \<and> frame_tree_node_to_io_thread_client m' n
               = (if S - rfh_addr ` set es = {} then None else Some (S - rfh_addr ` set es, r))"
  using assms
proof (induction es arbitrary: m S)
  case Nil
  then show ?case by simp
next
  case (Cons f rest)
  from Cons.prems(3) have n: "GetFrameTreeNodeId f = n" by simp
  from Cons.prems(5) have mem: "rfh_addr f \<in> S" by simp
  from Erase_present [of m f S r] Cons.prems(1) n mem
  obtain m1 where e: "Erase m f = Passed m1"
    and ftn: "frame_tree_node_to_io_thread_client m1 n
               = (if S - {rfh_addr f} = {} then None else Some (S - {rfh_addr f}, r))"
    by auto
  from Cons.prems(4) have fresh: "rfh_addr f \<notin> rfh_addr ` set rest"
    and dist: "distinct (map rfh_addr rest)" by simp_all
  from Cons.prems(5) have "rfh_addr ` set rest \<subseteq> S" by simp
  with fresh have sub: "rfh_addr ` set rest \<subseteq> S - {rfh_addr f}" by blast
  have diff: "S - rfh_addr ` set (f # rest) = (S - {rfh_addr f}) - rfh_addr ` set rest" by auto
  show ?case
  proof (cases "S - {rfh_addr f} = {}")
    case True
    with sub have "rest = []" by auto
    with e ftn True show ?thesis by simp
  next
    case False
    with ftn have ftn1: "frame_tree_node_to_io_thread_client m1 n = Some (S - {rfh_addr f}, r)"
      by simp
    from Cons.prems(3) have "\<forall>f\<in>set rest. GetFrameTreeNodeId f = n" by simp
    from Cons.IH [OF ftn1 False this dist sub]
    obtain m' where "Erase_all m1 rest = Passed m'"
      and "frame_tree_node_to_io_thread_client m' n
             = (if S - rfh_addr ` set (f # rest) = {} then None
                else Some (S - rfh_addr ` set (f # rest), r))"
      unfolding diff by blast
    moreover from e have "Erase_all m (f # rest) = Erase_all m1 rest" by simp
    ultimately show ?thesis by metis
  qed
qed

lemma image_take_drop:
  assumes "distinct (map g xs)"
  shows "g ` set xs - g ` set (take k xs) = g ` set (drop k xs)"
proof -
  have "distinct (map g (take k xs) @ map g (drop k xs))"
    using assms by (simp flip: map_append)
  then have disj: "g ` set (take k xs) \<inter> g ` set (drop k xs) = {}" by auto
  have "set xs = set (take k xs) \<union> set (drop k xs)"
    by (metis append_take_drop_id set_append)
  then have "g ` set xs = g ` set (take k xs) \<union> g ` set (drop k xs)" by auto
  with disj show ?thesis by auto
qed

lemma same_length:
  assumes "distinct (map g xs)" and "distinct (map h ys)" and "g ` set xs = h ` set ys"
  shows "length xs = length ys"
proof -
  have "length xs = card (set (map g xs))" using assms(1) by (simp add: distinct_card del: set_map)
  also have "\<dots> = card (set (map h ys))" using assms(3) by simp
  also have "\<dots> = length ys" using assms(2) by (simp add: distinct_card del: set_map)
  finally show ?thesis .
qed

text \<open>
  C1. Take a frame-tree-node id \<open>n\<close> that has no entry, \<open>N\<close> frames at distinct
  addresses that all belong to \<open>n\<close>, each added by \<^verbatim>\<open>Set(rfh, client)\<close> with a record of
  its own, and then erase them by \<^verbatim>\<open>Erase(rfh)\<close> in any order \<open>es\<close> that lists each frame
  once. After the first \<open>k\<close> erasures (\<open>k \<le> N\<close>) no check has failed, and the lookup by
  \<open>n\<close> returns the record written last as long as \<open>k < N\<close>, and finds nothing once
  \<open>k = N\<close>. And when a frame \<open>F\<close> is the only occupant of its slot, \<^verbatim>\<open>Erase(F)\<close> passes
  and afterwards neither the lookup by the identity of \<open>F\<close> nor the lookup by its
  frame-tree-node id finds anything.
\<close>

theorem occupant_set_accounting:
  "(frame_tree_node_to_io_thread_client m n = None
      \<and> (\<forall>fc\<in>set fcs. GetFrameTreeNodeId (fst fc) = n)
      \<and> distinct (map (rfh_addr \<circ> fst) fcs)
      \<and> set es = fst ` set fcs \<and> distinct (map rfh_addr es)
      \<and> k \<le> length fcs \<longrightarrow>
      (\<exists>m'. Erase_all (Set_rfh_all m fcs) (take k es) = Passed m'
         \<and> Get_frame_tree_node_id m' n c
             = (if k < length fcs then (True, snd (last fcs)) else (False, c))))
   \<and> (frame_tree_node_to_io_thread_client m (GetFrameTreeNodeId F) = Some ({rfh_addr F}, r) \<longrightarrow>
        (\<exists>m'. Erase m F = Passed m'
           \<and> Get_rfh_id m' (GetRenderFrameHostIdPair F) c = (False, c)
           \<and> Get_frame_tree_node_id m' (GetFrameTreeNodeId F) c = (False, c)))"
proof (intro conjI impI)
  assume a: "frame_tree_node_to_io_thread_client m n = None
      \<and> (\<forall>fc\<in>set fcs. GetFrameTreeNodeId (fst fc) = n)
      \<and> distinct (map (rfh_addr \<circ> fst) fcs)
      \<and> set es = fst ` set fcs \<and> distinct (map rfh_addr es)
      \<and> k \<le> length fcs"
  then have none: "frame_tree_node_to_io_thread_client m n = None"
    and slot: "\<forall>fc\<in>set fcs. GetFrameTreeNodeId (fst fc) = n"
    and dfcs: "distinct (map (rfh_addr \<circ> fst) fcs)"
    and perm: "set es = fst ` set fcs"
    and des: "distinct (map rfh_addr es)"
    and k: "k \<le> length fcs"
    by simp_all
  have img: "rfh_addr ` set es = (rfh_addr \<circ> fst) ` set fcs"
    using perm by (simp add: image_comp)
  have len: "length es = length fcs"
    using des dfcs img by (rule same_length)
  show "\<exists>m'. Erase_all (Set_rfh_all m fcs) (take k es) = Passed m'
         \<and> Get_frame_tree_node_id m' n c
             = (if k < length fcs then (True, snd (last fcs)) else (False, c))"
  proof (cases "fcs = []")
    case True
    with perm have "es = []" by simp
    with True none show ?thesis by (simp add: Get_frame_tree_node_id_def)
  next
    case False
    let ?S = "rfh_addr ` set es"
    have "fst (current_entry_of m n) = {}" using none by (simp add: current_entry_of_def)
    with Set_rfh_all_frame_tree_node [OF slot False, of m] img
    have entry: "frame_tree_node_to_io_thread_client (Set_rfh_all m fcs) n
                   = Some (?S, snd (last fcs))"
      by simp
    from False perm have ne: "?S \<noteq> {}" by auto
    have "\<forall>f\<in>set es. GetFrameTreeNodeId f = n"
      using slot unfolding perm by blast
    then have sl: "\<forall>f\<in>set (take k es). GetFrameTreeNodeId f = n"
      by (blast dest: in_set_takeD)
    have dt: "distinct (map rfh_addr (take k es))"
      using des by (simp add: take_map [symmetric])
    have sb: "rfh_addr ` set (take k es) \<subseteq> ?S"
      by (auto dest: in_set_takeD)
    from Erase_all_frame_tree_node [OF entry ne sl dt sb]
    obtain m' where e: "Erase_all (Set_rfh_all m fcs) (take k es) = Passed m'"
      and ftn: "frame_tree_node_to_io_thread_client m' n
                  = (if ?S - rfh_addr ` set (take k es) = {} then None
                     else Some (?S - rfh_addr ` set (take k es), snd (last fcs)))"
      by blast
    have "?S - rfh_addr ` set (take k es) = {} \<longleftrightarrow> \<not> k < length fcs"
      using image_take_drop [OF des, of k] len by auto
    with ftn have "Get_frame_tree_node_id m' n c
             = (if k < length fcs then (True, snd (last fcs)) else (False, c))"
      by (simp add: Get_frame_tree_node_id_def)
    with e show ?thesis by blast
  qed
next
  assume "frame_tree_node_to_io_thread_client m (GetFrameTreeNodeId F) = Some ({rfh_addr F}, r)"
  from Erase_present [OF this] show "\<exists>m'. Erase m F = Passed m'
           \<and> Get_rfh_id m' (GetRenderFrameHostIdPair F) c = (False, c)
           \<and> Get_frame_tree_node_id m' (GetFrameTreeNodeId F) c = (False, c)"
    by (auto simp: Get_rfh_id_def Get_frame_tree_node_id_def)
qed

theorem occupant_set_accounting_witness:
  "frame_tree_node_to_io_thread_client GetInstance_initial 1 = None
   \<and> (\<exists>m'. Erase_all (Set_rfh_all GetInstance_initial frames12) (take 1 [frame2, frame1])
               = Passed m'
         \<and> Get_frame_tree_node_id m' 1 IoThreadClientData_new = (True, delegate_record))
   \<and> (\<exists>m'. Erase_all (Set_rfh_all GetInstance_initial frames12) (take 2 [frame2, frame1])
               = Passed m'
         \<and> Get_frame_tree_node_id m' 1 IoThreadClientData_new = (False, IoThreadClientData_new))
   \<and> frame_tree_node_to_io_thread_client registry_frame1 1 = Some ({100}, delegate_record)
   \<and> (\<exists>m'. Erase registry_frame1 frame1 = Passed m'
         \<and> Get_rfh_id m' (3, 5) IoThreadClientData_new = (False, IoThreadClientData_new)
         \<and> Get_frame_tree_node_id m' 1 IoThreadClientData_new = (False, IoThreadClientData_new))"
proof -
  have none: "frame_tree_node_to_io_thread_client GetInstance_initial 1 = None"
    by (simp add: GetInstance_initial_def)
  have slot: "\<forall>fc\<in>set frames12. GetFrameTreeNodeId (fst fc) = 1"
    by (simp add: frames12_def frame1_def frame2_def)
  have dfcs: "distinct (map (rfh_addr \<circ> fst) frames12)"
    by (simp add: frames12_def frame1_def frame2_def)
  have perm: "set [frame2, frame1] = fst ` set frames12"
    by (auto simp: frames12_def)
  have des: "distinct (map rfh_addr [frame2, frame1])"
    by (simp add: frame1_def frame2_def)
  have len: "length frames12 = 2" and lst: "snd (last frames12) = delegate_record"
    by (simp_all add: frames12_def)
  have sole: "frame_tree_node_to_io_thread_client registry_frame1 1 = Some ({100}, delegate_record)"
    by (simp add: registry_frame1_def Set_rfh_def Let_def current_entry_of_def
          GetInstance_initial_def frame1_def)
  have ids: "GetFrameTreeNodeId frame1 = 1" "rfh_addr frame1 = 100"
    "GetRenderFrameHostIdPair frame1 = (3, 5)"
    by (simp_all add: frame1_def GetRenderFrameHostIdPair_def)
  have one: "\<exists>m'. Erase_all (Set_rfh_all GetInstance_initial frames12) (take 1 [frame2, frame1])
               = Passed m'
         \<and> Get_frame_tree_node_id m' 1 IoThreadClientData_new = (True, delegate_record)"
    using none slot dfcs perm des
      occupant_set_accounting
        [of GetInstance_initial 1 frames12 "[frame2, frame1]" 1 IoThreadClientData_new
            frame1 delegate_record]
    unfolding len lst by simp
  have two: "\<exists>m'. Erase_all (Set_rfh_all GetInstance_initial frames12) (take 2 [frame2, frame1])
               = Passed m'
         \<and> Get_frame_tree_node_id m' 1 IoThreadClientData_new = (False, IoThreadClientData_new)"
    using none slot dfcs perm des
      occupant_set_accounting
        [of GetInstance_initial 1 frames12 "[frame2, frame1]" 2 IoThreadClientData_new
            frame1 delegate_record]
    unfolding len lst by simp
  have three: "\<exists>m'. Erase registry_frame1 frame1 = Passed m'
         \<and> Get_rfh_id m' (3, 5) IoThreadClientData_new = (False, IoThreadClientData_new)
         \<and> Get_frame_tree_node_id m' 1 IoThreadClientData_new = (False, IoThreadClientData_new)"
    using sole
      occupant_set_accounting
        [of registry_frame1 1 frames12 "[frame2, frame1]" 2 IoThreadClientData_new
            frame1 delegate_record]
    unfolding ids by blast
  from none one two sole three show ?thesis by blast
qed

end
